theory Spec2Isabelle
  imports Main "HOL-Library.Word"
begin

section \<open>The memory destination manager of jdatadst-tj.c\<close>

text \<open>
  The file holds three methods of a destination manager that collects compressed data in
  memory (\<open>init_mem_destination\<close>, \<open>empty_mem_output_buffer\<close>,
  \<open>term_mem_destination\<close>) and the routine \<open>jpeg_mem_dest_tj\<close> that installs
  them. All of them work on a \<open>my_mem_destination_mgr\<close> reached through
  \<open>cinfo->dest\<close>, on buffers obtained from \<open>malloc\<close>, and on two variables
  of the caller reached through the pointers \<open>outbuffer\<close> and \<open>outsize\<close>.
\<close>

subsection \<open>Machine types\<close>

text \<open>
  \<open>size_t\<close> and \<open>unsigned long\<close> are the 64-bit unsigned integers of an LP64
  target; both wrap around. A \<open>JOCTET\<close> is an 8-bit byte.
\<close>

type_synonym size_t = "64 word"
type_synonym unsigned_long = "64 word"
type_synonym JOCTET = "8 word"

definition OUTPUT_BUF_SIZE :: "64 word" where
  "OUTPUT_BUF_SIZE = 4096"

subsection \<open>Pointers and allocated memory\<close>

text \<open>
  A pointer to bytes is \<open>NULL\<close> or a block together with an offset into it. A block
  is one allocation: its number is never given out again, so that a pointer into a
  released block stays dangling whatever address the allocator reuses. The memory maps
  the number of each block that was ever allocated to its state: live, with its cells, or
  released. A cell that was never written holds \<open>None\<close> (the indeterminate content of
  memory fresh from \<open>malloc\<close>).
\<close>

datatype ptr = NULL | Ptr nat nat

datatype block = Live "JOCTET option list" | Released

type_synonym memory = "nat \<rightharpoonup> block"

fun ptr_add :: "ptr \<Rightarrow> nat \<Rightarrow> ptr" where
  "ptr_add NULL n = NULL"
| "ptr_add (Ptr b off) n = Ptr b (off + n)"

text \<open>
  \<open>malloc\<close> belongs to the C library. Its answer is an argument of the model:
  \<open>None\<close> when it returns \<open>NULL\<close>, \<open>Some b\<close> when it returns the start of
  the new block \<open>b\<close>, which then has \<open>n\<close> indeterminate cells.
\<close>

definition malloc :: "nat option \<Rightarrow> nat \<Rightarrow> memory \<Rightarrow> ptr \<times> memory" where
  "malloc answer n h =
     (case answer of
        None \<Rightarrow> (NULL, h)
      | Some b \<Rightarrow> (Ptr b 0, h(b \<mapsto> Live (replicate n None))))"

text \<open>
  \<open>free\<close> releases the block its argument starts. Any other argument than the start of
  a live block (an inner pointer, a block released before) is undefined behaviour in C:
  the model answers \<open>None\<close>. The routines of this file call \<open>free\<close> on non-null
  pointers only.
\<close>

fun free :: "ptr \<Rightarrow> memory \<Rightarrow> memory option" where
  "free NULL h = Some h"
| "free (Ptr b off) h =
     (case h b of
        Some (Live cells) \<Rightarrow> if off = 0 then Some (h(b \<mapsto> Released)) else None
      | Some Released \<Rightarrow> None
      | None \<Rightarrow> None)"

text \<open>
  \<open>MEMCOPY(dest, src, size)\<close> is \<open>memcpy\<close>. Copying from or to a null pointer, outside
  a live block, or between overlapping ranges is undefined behaviour: the model answers
  \<open>None\<close>.
\<close>

fun MEMCOPY :: "ptr \<Rightarrow> ptr \<Rightarrow> nat \<Rightarrow> memory \<Rightarrow> memory option" where
  "MEMCOPY (Ptr d doff) (Ptr s soff) n h =
     (case h d of
        Some (Live dst) \<Rightarrow>
          (case h s of
             Some (Live src) \<Rightarrow>
               if doff + n \<le> length dst \<and> soff + n \<le> length src \<and>
                  (d \<noteq> s \<or> doff + n \<le> soff \<or> soff + n \<le> doff)
               then Some (h(d \<mapsto>
                      Live (take doff dst @ take n (drop soff src) @ drop (doff + n) dst)))
               else None
           | Some Released \<Rightarrow> None
           | None \<Rightarrow> None)
      | Some Released \<Rightarrow> None
      | None \<Rightarrow> None)"
| "MEMCOPY _ _ n h = None"

subsection \<open>The destination object and the compression object\<close>

datatype dest_method =
    Init_mem_destination
  | Empty_mem_output_buffer
  | Term_mem_destination
  | Other_method nat

record jpeg_destination_mgr =
  next_output_byte :: ptr
  free_in_buffer :: size_t
  init_destination :: dest_method
  empty_output_buffer :: dest_method
  term_destination :: dest_method

text \<open>
  \<open>outbuffer\<close> and \<open>outsize\<close> point to variables of the caller: \<open>None\<close> is the
  null pointer, \<open>Some a\<close> the variable at address \<open>a\<close>.
\<close>

record my_mem_destination_mgr =
  pub :: jpeg_destination_mgr
  outbuffer :: "nat option"
  outsize :: "nat option"
  newbuffer :: ptr
  buffer :: ptr
  bufsize :: size_t
  alloc :: bool

text \<open>
  The state the routines act on: the destination object behind \<open>cinfo->dest\<close>
  (\<open>None\<close> while that pointer is \<open>NULL\<close>), the allocated memory, the arguments of
  the calls of \<open>free\<close> so far, in order, and the caller's pointer and size variables.
\<close>

record j_compress =
  dest :: "my_mem_destination_mgr option"
  heap :: memory
  freed :: "ptr list"
  ptr_vars :: "nat \<Rightarrow> ptr"
  size_vars :: "nat \<Rightarrow> unsigned_long"

subsection \<open>Error exits and outcomes\<close>

text \<open>
  \<open>ERREXIT(cinfo, code)\<close> and \<open>ERREXIT1(cinfo, code, p1)\<close> record the message code
  (and parameter) and leave through \<open>error_exit\<close>, which does not return. A call of a
  routine ends in one of three ways: it returns a value, it leaves through an error exit,
  or it runs into undefined behaviour. The first two carry the state at that moment.
\<close>

datatype J_MESSAGE_CODE = JERR_BUFFER_SIZE | JERR_OUT_OF_MEMORY

datatype error = ERREXIT J_MESSAGE_CODE | ERREXIT1 J_MESSAGE_CODE int

datatype 'a outcome = Return 'a j_compress | Exit error j_compress | Fault

subsection \<open>The methods\<close>

definition init_mem_destination :: "j_compress \<Rightarrow> unit outcome" where
  "init_mem_destination cinfo = Return () cinfo"

definition empty_mem_output_buffer :: "nat option \<Rightarrow> j_compress \<Rightarrow> bool outcome" where
  "empty_mem_output_buffer answer cinfo =
     (case dest cinfo of
        None \<Rightarrow> Fault
      | Some d \<Rightarrow>
          if \<not> alloc d then Exit (ERREXIT JERR_BUFFER_SIZE) cinfo
          else
            let nextsize = bufsize d * 2 in
            (case malloc answer (unat nextsize) (heap cinfo) of
               (nextbuffer, h1) \<Rightarrow>
                 if nextbuffer = NULL
                 then Exit (ERREXIT1 JERR_OUT_OF_MEMORY 10) (cinfo\<lparr>heap := h1\<rparr>)
                 else
                   (case MEMCOPY nextbuffer (buffer d) (unat (bufsize d)) h1 of
                      None \<Rightarrow> Fault
                    | Some h2 \<Rightarrow>
                        (case (if newbuffer d \<noteq> NULL
                               then map_option (\<lambda>h. (h, freed cinfo @ [newbuffer d]))
                                      (free (newbuffer d) h2)
                               else Some (h2, freed cinfo)) of
                           None \<Rightarrow> Fault
                         | Some (h3, fr) \<Rightarrow>
                             Return True
                               (cinfo\<lparr>heap := h3, freed := fr,
                                  dest := Some (d\<lparr>newbuffer := nextbuffer,
                                    pub := (pub d)\<lparr>
                                      next_output_byte := ptr_add nextbuffer (unat (bufsize d)),
                                      free_in_buffer := bufsize d\<rparr>,
                                    buffer := nextbuffer,
                                    bufsize := nextsize\<rparr>)\<rparr>)))))"

definition term_mem_destination :: "j_compress \<Rightarrow> unit outcome" where
  "term_mem_destination cinfo =
     (case dest cinfo of
        None \<Rightarrow> Fault
      | Some d \<Rightarrow>
          (case (if alloc d
                 then map_option
                        (\<lambda>ob. cinfo\<lparr>ptr_vars := (ptr_vars cinfo)(ob := buffer d)\<rparr>)
                        (outbuffer d)
                 else Some cinfo) of
             None \<Rightarrow> Fault
           | Some c1 \<Rightarrow>
               (case outsize d of
                  None \<Rightarrow> Fault
                | Some os \<Rightarrow>
                    Return ()
                      (c1\<lparr>size_vars := (size_vars c1)
                            (os := ucast (bufsize d - free_in_buffer (pub d)))\<rparr>))))"

subsection \<open>Installing the destination\<close>

text \<open>
  \<open>alloc_small\<close> is a method of the library's memory manager; the object it returns has
  indeterminate fields, given here by the argument \<open>pool_obj\<close>. The second argument is
  the answer of \<open>malloc\<close>, should the routine call it.
\<close>

definition jpeg_mem_dest_tj ::
  "my_mem_destination_mgr \<Rightarrow> nat option \<Rightarrow> j_compress \<Rightarrow>
     nat option \<Rightarrow> nat option \<Rightarrow> bool \<Rightarrow> unit outcome" where
  "jpeg_mem_dest_tj pool_obj answer cinfo outbuffer_arg outsize_arg alloc_arg =
     (case outbuffer_arg of
        None \<Rightarrow> Exit (ERREXIT JERR_BUFFER_SIZE) cinfo
      | Some ob \<Rightarrow>
     (case outsize_arg of
        None \<Rightarrow> Exit (ERREXIT JERR_BUFFER_SIZE) cinfo
      | Some os \<Rightarrow>
          let d0 = (case dest cinfo of
                      None \<Rightarrow> pool_obj\<lparr>newbuffer := NULL\<rparr>
                    | Some d \<Rightarrow> d);
              d1 = d0\<lparr>pub := (pub d0)\<lparr>
                         init_destination := Init_mem_destination,
                         empty_output_buffer := Empty_mem_output_buffer,
                         term_destination := Term_mem_destination\<rparr>,
                      outbuffer := Some ob,
                      outsize := Some os,
                      alloc := alloc_arg\<rparr>
          in
          (case (if ptr_vars cinfo ob = NULL \<or> size_vars cinfo os = 0
                 then
                   if alloc_arg
                   then
                     (case malloc answer (unat OUTPUT_BUF_SIZE) (heap cinfo) of
                        (p, h1) \<Rightarrow>
                          let d2 = d1\<lparr>newbuffer := p\<rparr>;
                              c2 = cinfo\<lparr>heap := h1, ptr_vars := (ptr_vars cinfo)(ob := p)\<rparr>
                          in
                          if newbuffer d2 = NULL
                          then Inl (ERREXIT1 JERR_OUT_OF_MEMORY 10, c2\<lparr>dest := Some d2\<rparr>)
                          else Inr (d2, c2\<lparr>size_vars := (size_vars c2)(os := OUTPUT_BUF_SIZE)\<rparr>))
                   else Inl (ERREXIT JERR_BUFFER_SIZE, cinfo\<lparr>dest := Some d1\<rparr>)
                 else Inr (d1, cinfo)) of
             Inl (e, c) \<Rightarrow> Exit e c
           | Inr (d3, c3) \<Rightarrow>
               Return ()
                 (c3\<lparr>dest := Some (d3\<lparr>
                    pub := (pub d3)\<lparr>
                      next_output_byte := ptr_vars c3 ob,
                      free_in_buffer := ucast (size_vars c3 os)\<rparr>,
                    buffer := ptr_vars c3 ob,
                    bufsize := ucast (size_vars c3 os)\<rparr>)\<rparr>))))"

text \<open>
  A run of consecutive calls of \<open>empty_mem_output_buffer\<close>, one per answer of
  \<open>malloc\<close>, that goes on as long as each call returns \<open>TRUE\<close>.
\<close>

fun empty_mem_output_buffer_seq :: "nat option list \<Rightarrow> j_compress \<Rightarrow> j_compress option" where
  "empty_mem_output_buffer_seq [] cinfo = Some cinfo"
| "empty_mem_output_buffer_seq (a # as) cinfo =
     (case empty_mem_output_buffer a cinfo of
        Return r c \<Rightarrow> if r then empty_mem_output_buffer_seq as c else None
      | Exit e c \<Rightarrow> None
      | Fault \<Rightarrow> None)"

subsection \<open>Well-formed sinks\<close>

text \<open>
  The pointers of a sink are in order when \<open>buffer\<close> points into a live block that has
  \<open>bufsize\<close> cells from there on, and \<open>newbuffer\<close> is \<open>NULL\<close> or the start of a
  live block.
\<close>

definition valid_sink :: "j_compress \<Rightarrow> bool" where
  "valid_sink cinfo =
     (case dest cinfo of
        None \<Rightarrow> False
      | Some d \<Rightarrow>
          (case buffer d of
             NULL \<Rightarrow> False
           | Ptr x off \<Rightarrow>
               (case heap cinfo x of
                  Some (Live cells) \<Rightarrow> off + unat (bufsize d) \<le> length cells
                | Some Released \<Rightarrow> False
                | None \<Rightarrow> False)) \<and>
          (case newbuffer d of
             NULL \<Rightarrow> True
           | Ptr y yoff \<Rightarrow>
               (case heap cinfo y of
                  Some (Live cells) \<Rightarrow> yoff = 0
                | Some Released \<Rightarrow> False
                | None \<Rightarrow> False)))"

subsection \<open>Observing an outcome\<close>

definition returned :: "'a outcome \<Rightarrow> ('a \<times> j_compress) option" where
  "returned r = (case r of Return v c \<Rightarrow> Some (v, c) | Exit e c \<Rightarrow> None | Fault \<Rightarrow> None)"

definition exited :: "'a outcome \<Rightarrow> (error \<times> j_compress) option" where
  "exited r = (case r of Return v c \<Rightarrow> None | Exit e c \<Rightarrow> Some (e, c) | Fault \<Rightarrow> None)"

definition block_of :: "nat \<Rightarrow> j_compress \<Rightarrow> block option" where
  "block_of b cinfo = heap cinfo b"

subsection \<open>Concrete states\<close>

text \<open>The method table as \<open>jpeg_mem_dest_tj\<close> fills it in.\<close>

definition installed_methods :: "jpeg_destination_mgr \<Rightarrow> jpeg_destination_mgr" where
  "installed_methods p =
     p\<lparr>init_destination := Init_mem_destination,
       empty_output_buffer := Empty_mem_output_buffer,
       term_destination := Term_mem_destination\<rparr>"

text \<open>An object as \<open>alloc_small\<close> may hand it out: every field holds leftovers.\<close>

definition pool_garbage :: my_mem_destination_mgr where
  "pool_garbage =
     \<lparr>pub = \<lparr>next_output_byte = Ptr 9 3, free_in_buffer = 77,
             init_destination = Other_method 0,
             empty_output_buffer = Other_method 1,
             term_destination = Other_method 2\<rparr>,
      outbuffer = Some 8, outsize = None, newbuffer = Ptr 9 5,
      buffer = Ptr 9 1, bufsize = 13, alloc = False\<rparr>"

text \<open>
  A compression object that has no destination yet; the caller's variables are all
  \<open>NULL\<close> and 0.
\<close>

definition fresh_cinfo :: j_compress where
  "fresh_cinfo =
     \<lparr>dest = None, heap = Map.empty, freed = [],
      ptr_vars = (\<lambda>a. NULL), size_vars = (\<lambda>a. 0)\<rparr>"

text \<open>
  The state \<open>jpeg_mem_dest_tj\<close> leaves when it is called on \<open>fresh_cinfo\<close> with the
  caller's variables at address 0, permission to allocate, and \<open>malloc\<close> answering
  with block 1.
\<close>

definition sink_4096 :: j_compress where
  "sink_4096 =
     \<lparr>dest = Some
        \<lparr>pub = \<lparr>next_output_byte = Ptr 1 0, free_in_buffer = 4096,
                init_destination = Init_mem_destination,
                empty_output_buffer = Empty_mem_output_buffer,
                term_destination = Term_mem_destination\<rparr>,
         outbuffer = Some 0, outsize = Some 0, newbuffer = Ptr 1 0,
         buffer = Ptr 1 0, bufsize = 4096, alloc = True\<rparr>,
      heap = [1 \<mapsto> Live (replicate 4096 None)], freed = [],
      ptr_vars = (\<lambda>a. NULL)(0 := Ptr 1 0), size_vars = (\<lambda>a. 0)(0 := 4096)\<rparr>"

text \<open>
  A caller that owns the three bytes of block 5 and has stored their address and number
  in its variables at address 0; and the sink \<open>jpeg_mem_dest_tj\<close> makes of it, with
  and without permission to allocate.
\<close>

definition caller_cinfo :: j_compress where
  "caller_cinfo =
     \<lparr>dest = None, heap = [5 \<mapsto> Live [Some 1, Some 2, Some 3]], freed = [],
      ptr_vars = (\<lambda>a. NULL)(0 := Ptr 5 0), size_vars = (\<lambda>a. 0)(0 := 3)\<rparr>"

definition supplied_sink :: "bool \<Rightarrow> j_compress" where
  "supplied_sink al =
     caller_cinfo\<lparr>dest := Some
        \<lparr>pub = \<lparr>next_output_byte = Ptr 5 0, free_in_buffer = 3,
                init_destination = Init_mem_destination,
                empty_output_buffer = Empty_mem_output_buffer,
                term_destination = Term_mem_destination\<rparr>,
         outbuffer = Some 0, outsize = Some 0, newbuffer = NULL,
         buffer = Ptr 5 0, bufsize = 3, alloc = al\<rparr>\<rparr>"

text \<open>
  The same caller's fixed buffer after the producer has stored two of the three bytes.
\<close>

definition written_sink :: j_compress where
  "written_sink =
     caller_cinfo\<lparr>dest := Some
        \<lparr>pub = \<lparr>next_output_byte = Ptr 5 2, free_in_buffer = 1,
                init_destination = Init_mem_destination,
                empty_output_buffer = Empty_mem_output_buffer,
                term_destination = Term_mem_destination\<rparr>,
         outbuffer = Some 0, outsize = Some 0, newbuffer = NULL,
         buffer = Ptr 5 0, bufsize = 3, alloc = False\<rparr>\<rparr>"

text \<open>
  The sink that owns block 1 after it has been installed again, with the caller's
  variables at address 3 (which hold \<open>NULL\<close> and 0), permission to allocate, and
  \<open>malloc\<close> answering with block 7.
\<close>

definition reinstalled_sink :: j_compress where
  "reinstalled_sink =
     \<lparr>dest = Some
        \<lparr>pub = \<lparr>next_output_byte = Ptr 7 0, free_in_buffer = 4096,
                init_destination = Init_mem_destination,
                empty_output_buffer = Empty_mem_output_buffer,
                term_destination = Term_mem_destination\<rparr>,
         outbuffer = Some 3, outsize = Some 3, newbuffer = Ptr 7 0,
         buffer = Ptr 7 0, bufsize = 4096, alloc = True\<rparr>,
      heap = [1 \<mapsto> Live (replicate 4096 None), 7 \<mapsto> Live (replicate 4096 None)],
      freed = [],
      ptr_vars = (\<lambda>a. NULL)(0 := Ptr 1 0, 3 := Ptr 7 0),
      size_vars = (\<lambda>a. 0)(0 := 4096, 3 := 4096)\<rparr>"

text \<open>
  The sink that owns block 1 at the moment \<open>jpeg_mem_dest_tj\<close> gives up on installing
  it again with the caller's variables at address 3 (which hold \<open>NULL\<close> and 0) and
  without permission to allocate.
\<close>

definition refused_sink :: j_compress where
  "refused_sink =
     \<lparr>dest = Some
        \<lparr>pub = \<lparr>next_output_byte = Ptr 1 0, free_in_buffer = 4096,
                init_destination = Init_mem_destination,
                empty_output_buffer = Empty_mem_output_buffer,
                term_destination = Term_mem_destination\<rparr>,
         outbuffer = Some 3, outsize = Some 3, newbuffer = Ptr 1 0,
         buffer = Ptr 1 0, bufsize = 4096, alloc = False\<rparr>,
      heap = [1 \<mapsto> Live (replicate 4096 None)], freed = [],
      ptr_vars = (\<lambda>a. NULL)(0 := Ptr 1 0), size_vars = (\<lambda>a. 0)(0 := 4096)\<rparr>"

section \<open>Properties\<close>

subsection \<open>Auxiliary facts\<close>

text \<open>
  Doubling a size wraps around exactly when the result is smaller than the size itself.
\<close>

lemma unat_double_no_wrap:
  fixes w :: "64 word"
  assumes "unat w \<le> unat (w * 2)"
  shows "unat (w * 2) = 2 * unat w"
proof -
  have lt: "unat w < 2 ^ 64" using unsigned_less [of w] by simp
  have eq: "unat (w * 2) = (unat w * 2) mod 2 ^ 64"
    by (simp add: unat_word_ariths)
  show ?thesis
  proof (cases "unat w * 2 < 2 ^ 64")
    case True
    then show ?thesis using eq by simp
  next
    case False
    then have "(unat w * 2) mod 2 ^ 64 = unat w * 2 - 2 ^ 64"
      using lt by (simp add: mod_if)
    then show ?thesis using assms eq lt False by linarith
  qed
qed

lemma unat_double_fits:
  fixes w :: "64 word"
  assumes "2 * unat w < 2 ^ 64"
  shows "unat (w * 2) = 2 * unat w"
  using assms by (simp add: unat_word_ariths)

text \<open>
  What a returning call of \<open>empty_mem_output_buffer\<close> has done: \<open>malloc\<close> gave a
  block, the copy stayed inside both blocks (so the doubled size did not wrap around),
  the block held by \<open>newbuffer\<close>, if any, was released, and the fields were updated.
\<close>

lemma empty_mem_output_buffer_Return:
  assumes "empty_mem_output_buffer answer cinfo = Return r c'"
      and "dest cinfo = Some d"
  shows "\<exists>b x off src h2 h3.
           answer = Some b \<and> r \<and> alloc d \<and> buffer d = Ptr x off \<and>
           ((heap cinfo)(b \<mapsto> Live (replicate (unat (bufsize d * 2)) None))) x
             = Some (Live src) \<and>
           unat (bufsize d) \<le> unat (bufsize d * 2) \<and>
           off + unat (bufsize d) \<le> length src \<and>
           (b \<noteq> x \<or> unat (bufsize d) \<le> off \<or> off + unat (bufsize d) \<le> 0) \<and>
           h2 = (heap cinfo)(b \<mapsto> Live (take (unat (bufsize d)) (drop off src) @
                         drop (unat (bufsize d)) (replicate (unat (bufsize d * 2)) None))) \<and>
           (if newbuffer d = NULL then h3 = h2
            else \<exists>y cells. newbuffer d = Ptr y 0 \<and> h2 y = Some (Live cells) \<and>
                   h3 = h2(y \<mapsto> Released)) \<and>
           c' = cinfo\<lparr>heap := h3,
                  freed := freed cinfo @ (if newbuffer d = NULL then [] else [newbuffer d]),
                  dest := Some (d\<lparr>newbuffer := Ptr b 0,
                    pub := (pub d)\<lparr>next_output_byte := Ptr b (unat (bufsize d)),
                                  free_in_buffer := bufsize d\<rparr>,
                    buffer := Ptr b 0,
                    bufsize := bufsize d * 2\<rparr>)\<rparr>"
  using assms
  apply (cases answer; cases "buffer d"; cases "newbuffer d")
  apply (auto simp: empty_mem_output_buffer_def malloc_def Let_def
              split: option.splits block.splits if_splits prod.splits)
  done

lemma growth_dest:
  assumes "empty_mem_output_buffer answer cinfo = Return r c'"
      and "dest cinfo = Some d"
  shows "\<exists>b. answer = Some b \<and> r \<and>
           dest c' = Some (d\<lparr>newbuffer := Ptr b 0,
                    pub := (pub d)\<lparr>next_output_byte := Ptr b (unat (bufsize d)),
                                  free_in_buffer := bufsize d\<rparr>,
                    buffer := Ptr b 0,
                    bufsize := bufsize d * 2\<rparr>)"
  using empty_mem_output_buffer_Return [OF assms] by auto

lemma growth_freed:
  assumes "empty_mem_output_buffer answer cinfo = Return r c'"
      and "dest cinfo = Some d"
  shows "freed c' = freed cinfo @ (if newbuffer d = NULL then [] else [newbuffer d])"
  using empty_mem_output_buffer_Return [OF assms] by auto

lemma growth_no_wrap:
  assumes "empty_mem_output_buffer answer cinfo = Return r c'"
      and "dest cinfo = Some d"
  shows "unat (bufsize d * 2) = 2 * unat (bufsize d)"
proof -
  from empty_mem_output_buffer_Return [OF assms]
  have "unat (bufsize d) \<le> unat (bufsize d * 2)" by blast
  then show ?thesis by (rule unat_double_no_wrap)
qed

lemma growth_bufsize:
  assumes "empty_mem_output_buffer answer cinfo = Return r c'"
      and "dest cinfo = Some d"
  shows "\<exists>d'. dest c' = Some d' \<and> unat (bufsize d') = 2 * unat (bufsize d)"
  using growth_dest [OF assms] growth_no_wrap [OF assms] by auto

text \<open>
  A well-formed sink stays well-formed when its buffer grows, and the call does return
  \<open>TRUE\<close> when \<open>malloc\<close> answers with a new block and the doubled size fits
  \<open>size_t\<close>. \<open>jpeg_mem_dest_tj\<close> makes well-formed sinks.
\<close>

lemma valid_sink_fresh:
  assumes "valid_sink cinfo" and "dest cinfo = Some d" and "heap cinfo b = None"
  shows "newbuffer d \<noteq> Ptr b 0 \<and>
         (\<exists>x off old. buffer d = Ptr x off \<and> heap cinfo x = Some (Live old))"
  using assms by (auto simp: valid_sink_def split: ptr.splits option.splits block.splits)

lemma empty_mem_output_buffer_returns:
  assumes v: "valid_sink cinfo"
      and d: "dest cinfo = Some d"
      and a: "alloc d"
      and f: "heap cinfo b = None"
      and n: "2 * unat (bufsize d) < 2 ^ 64"
  shows "\<exists>c'. empty_mem_output_buffer (Some b) cinfo = Return True c' \<and> valid_sink c'"
proof -
  from v d obtain x off cells where
    bd: "buffer d = Ptr x off" and hx: "heap cinfo x = Some (Live cells)"
    and len: "off + unat (bufsize d) \<le> length cells"
    by (auto simp: valid_sink_def split: ptr.splits option.splits block.splits)
  from hx f have xb: "x \<noteq> b" by auto
  have sz: "unat (bufsize d * 2) = 2 * unat (bufsize d)"
    using n by (rule unat_double_fits)
  show ?thesis
  proof (cases "newbuffer d")
    case NULL
    then show ?thesis
      using d a bd hx len xb sz
      by (simp add: empty_mem_output_buffer_def malloc_def valid_sink_def Let_def)
  next
    case (Ptr y yoff)
    with v d obtain ycells where y: "yoff = 0" "heap cinfo y = Some (Live ycells)"
      by (auto simp: valid_sink_def split: ptr.splits option.splits block.splits)
    with f have yb: "y \<noteq> b" by auto
    show ?thesis
      using d a bd hx len xb sz Ptr y yb
      by (auto simp: empty_mem_output_buffer_def malloc_def valid_sink_def Let_def)
  qed
qed

lemma jpeg_mem_dest_tj_valid_allocated:
  assumes "ptr_vars cinfo ob = NULL \<or> size_vars cinfo os = 0"
      and "jpeg_mem_dest_tj pool (Some b) cinfo (Some ob) (Some os) True = Return () c'"
  shows "valid_sink c'"
  using assms
  by (auto simp: jpeg_mem_dest_tj_def malloc_def valid_sink_def OUTPUT_BUF_SIZE_def Let_def
           split: option.splits)

lemma jpeg_mem_dest_tj_valid_supplied:
  assumes "dest cinfo = None"
      and "ptr_vars cinfo ob = Ptr x off"
      and "size_vars cinfo os \<noteq> 0"
      and "heap cinfo x = Some (Live cells)"
      and "off + unat (size_vars cinfo os) \<le> length cells"
  shows "\<exists>c'. jpeg_mem_dest_tj pool answer cinfo (Some ob) (Some os) al = Return () c' \<and>
              valid_sink c'"
  using assms
  by (auto simp: jpeg_mem_dest_tj_def valid_sink_def Let_def)

text \<open>
  Runs of returning calls exist for every length: from a well-formed sink that may
  allocate, \<open>k\<close> calls answered by \<open>k\<close> different new blocks all return \<open>TRUE\<close>,
  as long as \<open>bufsize\<close> times \<open>2 ^ k\<close> fits \<open>size_t\<close>.
\<close>

lemma growth_unused:
  assumes "empty_mem_output_buffer answer cinfo = Return r c'"
      and "dest cinfo = Some d"
      and "heap cinfo z = None" and "answer \<noteq> Some z"
  shows "heap c' z = None"
proof -
  from empty_mem_output_buffer_Return [OF assms(1,2)]
  obtain b x off src h2 h3 where
    a: "answer = Some b"
    and h2: "h2 = (heap cinfo)(b \<mapsto> Live (take (unat (bufsize d)) (drop off src) @
                         drop (unat (bufsize d)) (replicate (unat (bufsize d * 2)) None)))"
    and h3: "if newbuffer d = NULL then h3 = h2
            else \<exists>y cells. newbuffer d = Ptr y 0 \<and> h2 y = Some (Live cells) \<and>
                   h3 = h2(y \<mapsto> Released)"
    and c': "c' = cinfo\<lparr>heap := h3,
                  freed := freed cinfo @ (if newbuffer d = NULL then [] else [newbuffer d]),
                  dest := Some (d\<lparr>newbuffer := Ptr b 0,
                    pub := (pub d)\<lparr>next_output_byte := Ptr b (unat (bufsize d)),
                                  free_in_buffer := bufsize d\<rparr>,
                    buffer := Ptr b 0,
                    bufsize := bufsize d * 2\<rparr>)\<rparr>"
    by blast
  from a assms(4) have zb: "z \<noteq> b" by auto
  then have "h2 z = None" using h2 assms(3) by simp
  then have "h3 z = None" using h3 by (auto split: if_splits)
  then show ?thesis using c' by simp
qed

lemma empty_mem_output_buffer_seq_returns:
  "valid_sink cinfo \<Longrightarrow> dest cinfo = Some d \<Longrightarrow> alloc d \<Longrightarrow> distinct bs \<Longrightarrow>
   (\<And>b. b \<in> set bs \<Longrightarrow> heap cinfo b = None) \<Longrightarrow>
   unat (bufsize d) * 2 ^ length bs < 2 ^ 64 \<Longrightarrow>
   \<exists>c'. empty_mem_output_buffer_seq (map Some bs) cinfo = Some c' \<and> valid_sink c'"
proof (induction bs arbitrary: cinfo d)
  case Nil
  then show ?case by simp
next
  case (Cons b bs)
  have fresh: "heap cinfo b = None" using Cons.prems(5) by simp
  have "unat (bufsize d) * 2 \<le> unat (bufsize d) * 2 ^ length (b # bs)"
    by simp
  then have fits: "2 * unat (bufsize d) < 2 ^ 64"
    using Cons.prems(6) by linarith
  from empty_mem_output_buffer_returns [OF Cons.prems(1,2,3) fresh fits]
  obtain c1 where step: "empty_mem_output_buffer (Some b) cinfo = Return True c1"
    and v1: "valid_sink c1" by blast
  from growth_dest [OF step Cons.prems(2)] obtain d1 where
    d1: "dest c1 = Some d1" and a1: "alloc d1 = alloc d"
    and b1: "bufsize d1 = bufsize d * 2"
    by auto
  have sz: "unat (bufsize d1) = 2 * unat (bufsize d)"
    using b1 growth_no_wrap [OF step Cons.prems(2)] by simp
  have unused: "heap c1 z = None" if "z \<in> set bs" for z
  proof -
    from that Cons.prems(4) have "z \<noteq> b" by auto
    moreover from that Cons.prems(5) have "heap cinfo z = None" by simp
    ultimately show ?thesis using growth_unused [OF step Cons.prems(2)] by simp
  qed
  have "unat (bufsize d1) * 2 ^ length bs < 2 ^ 64"
    using sz Cons.prems(6) by (simp add: mult.assoc mult.commute mult.left_commute)
  moreover have "distinct bs" using Cons.prems(4) by simp
  moreover have "alloc d1" using a1 Cons.prems(3) by simp
  ultimately obtain c' where
    "empty_mem_output_buffer_seq (map Some bs) c1 = Some c'" and "valid_sink c'"
    using Cons.IH [OF v1 d1 _ _ unused] by blast
  with step show ?case by simp
qed

text \<open>
  A sink whose \<open>newbuffer\<close> names a released block cannot grow: the call passes the
  released block to \<open>free\<close> a second time.
\<close>

lemma empty_mem_output_buffer_released_newbuffer:
  assumes "dest cinfo = Some d" and "alloc d"
      and "newbuffer d = Ptr y yoff" and "heap cinfo y = Some Released" and "b \<noteq> y"
  shows "empty_mem_output_buffer (Some b) cinfo = Fault"
  using assms
  by (cases "buffer d")
     (auto simp: empty_mem_output_buffer_def malloc_def Let_def
           split: option.splits block.splits)

text \<open>
  The flag \<open>alloc\<close> of an installed sink is the argument of \<open>jpeg_mem_dest_tj\<close>.
\<close>

lemma jpeg_mem_dest_tj_alloc:
  "jpeg_mem_dest_tj pool answer cinfo ob os al = Return () c' \<Longrightarrow>
   \<exists>d'. dest c' = Some d' \<and> alloc d' = al"
  by (auto simp: jpeg_mem_dest_tj_def malloc_def Let_def split: option.splits if_splits)

text \<open>
  The concrete states are the ones \<open>jpeg_mem_dest_tj\<close> produces.
\<close>

lemma jpeg_mem_dest_tj_fresh:
  "jpeg_mem_dest_tj pool_garbage (Some 1) fresh_cinfo (Some 0) (Some 0) True = Return () sink_4096"
  by (simp add: jpeg_mem_dest_tj_def malloc_def pool_garbage_def fresh_cinfo_def sink_4096_def
        OUTPUT_BUF_SIZE_def Let_def)

lemma jpeg_mem_dest_tj_caller:
  "jpeg_mem_dest_tj pool_garbage answer caller_cinfo (Some 0) (Some 0) al = Return () (supplied_sink al)"
  by (simp add: jpeg_mem_dest_tj_def pool_garbage_def caller_cinfo_def supplied_sink_def Let_def)

lemma supplied_sink_dest:
  "dest (supplied_sink al) = Some
        \<lparr>pub = \<lparr>next_output_byte = Ptr 5 0, free_in_buffer = 3,
                init_destination = Init_mem_destination,
                empty_output_buffer = Empty_mem_output_buffer,
                term_destination = Term_mem_destination\<rparr>,
         outbuffer = Some 0, outsize = Some 0, newbuffer = NULL,
         buffer = Ptr 5 0, bufsize = 3, alloc = al\<rparr>"
  by (simp add: supplied_sink_def)

lemma sink_4096_dest:
  "dest sink_4096 = Some
        \<lparr>pub = \<lparr>next_output_byte = Ptr 1 0, free_in_buffer = 4096,
                init_destination = Init_mem_destination,
                empty_output_buffer = Empty_mem_output_buffer,
                term_destination = Term_mem_destination\<rparr>,
         outbuffer = Some 0, outsize = Some 0, newbuffer = Ptr 1 0,
         buffer = Ptr 1 0, bufsize = 4096, alloc = True\<rparr>"
  by (simp add: sink_4096_def)

subsection \<open>Releasing the old buffer when the buffer grows\<close>

text \<open>
  Claim C1, as stated, fails. After \<open>jpeg_mem_dest_tj\<close> has allocated the first buffer
  (block 1), both \<open>buffer\<close> and \<open>newbuffer\<close> hold it. The next call of
  \<open>empty_mem_output_buffer\<close> returns \<open>TRUE\<close> and has passed exactly that block, the
  buffer it replaced, to \<open>free\<close>: the block is released when the call returns.
\<close>

theorem deferred_free_counterexample:
  "map_option buffer (dest sink_4096) = Some (Ptr 1 0) \<and>
   freed sink_4096 = [] \<and>
   map_option fst (returned (empty_mem_output_buffer (Some 2) sink_4096)) = Some True \<and>
   map_option (freed \<circ> snd) (returned (empty_mem_output_buffer (Some 2) sink_4096))
     = Some [Ptr 1 0] \<and>
   map_option (block_of 1 \<circ> snd) (returned (empty_mem_output_buffer (Some 2) sink_4096))
     = Some (Some Released)"
  by (simp add: empty_mem_output_buffer_def malloc_def sink_4096_def returned_def
        block_of_def Let_def)

text \<open>
  Claim C1, amended. A call of \<open>empty_mem_output_buffer\<close> that returns \<open>TRUE\<close> passes
  to \<open>free\<close> the pointer \<open>newbuffer\<close> held on entry, if it is not \<open>NULL\<close>, and
  nothing else. The buffer it replaces is released by this very call exactly when
  \<open>newbuffer\<close> on entry is the start of the block that buffer lies in, and stays live
  otherwise. The new buffer is what \<open>newbuffer\<close> and \<open>buffer\<close> hold afterwards.
\<close>

theorem empty_mem_output_buffer_frees_newbuffer:
  assumes "empty_mem_output_buffer answer cinfo = Return True c'"
      and "dest cinfo = Some d"
  shows "freed c' = freed cinfo @ (if newbuffer d = NULL then [] else [newbuffer d]) \<and>
         (\<exists>x off. buffer d = Ptr x off \<and>
            (if newbuffer d = Ptr x 0 then heap c' x = Some Released
             else \<exists>cells. heap c' x = Some (Live cells))) \<and>
         (\<exists>b. answer = Some b \<and> map_option newbuffer (dest c') = Some (Ptr b 0) \<and>
               map_option buffer (dest c') = Some (Ptr b 0))"
proof -
  from empty_mem_output_buffer_Return [OF assms]
  obtain b x off src h2 h3 where
    a: "answer = Some b" and bd: "buffer d = Ptr x off"
    and src: "((heap cinfo)(b \<mapsto> Live (replicate (unat (bufsize d * 2)) None))) x
                = Some (Live src)"
    and h2: "h2 = (heap cinfo)(b \<mapsto> Live (take (unat (bufsize d)) (drop off src) @
                         drop (unat (bufsize d)) (replicate (unat (bufsize d * 2)) None)))"
    and h3: "if newbuffer d = NULL then h3 = h2
            else \<exists>y cells. newbuffer d = Ptr y 0 \<and> h2 y = Some (Live cells) \<and>
                   h3 = h2(y \<mapsto> Released)"
    and c': "c' = cinfo\<lparr>heap := h3,
                  freed := freed cinfo @ (if newbuffer d = NULL then [] else [newbuffer d]),
                  dest := Some (d\<lparr>newbuffer := Ptr b 0,
                    pub := (pub d)\<lparr>next_output_byte := Ptr b (unat (bufsize d)),
                                  free_in_buffer := bufsize d\<rparr>,
                    buffer := Ptr b 0,
                    bufsize := bufsize d * 2\<rparr>)\<rparr>"
    by blast
  have live: "\<exists>cells. h2 x = Some (Live cells)"
    using src h2 by (auto split: if_splits)
  have "if newbuffer d = Ptr x 0 then heap c' x = Some Released
        else \<exists>cells. heap c' x = Some (Live cells)"
    using h3 live c' by (auto split: if_splits)
  then show ?thesis using a bd c' by simp
qed

text \<open>
  Claim C1, amended, at the sink that owns block 1, where the call releases block 1 and
  keeps block 2, and at the sink installed on the caller's three bytes, where the call
  releases nothing and block 5 stays live.
\<close>

theorem empty_mem_output_buffer_frees_newbuffer_witness:
  "(\<exists>c'. empty_mem_output_buffer (Some 2) sink_4096 = Return True c' \<and>
        freed c' = [Ptr 1 0] \<and> heap c' 1 = Some Released \<and>
        map_option newbuffer (dest c') = Some (Ptr 2 0)) \<and>
   (\<exists>c' cells. empty_mem_output_buffer (Some 6) (supplied_sink True) = Return True c' \<and>
        freed c' = [] \<and> heap c' 5 = Some (Live cells) \<and>
        map_option newbuffer (dest c') = Some (Ptr 6 0))"
proof -
  obtain c' where r: "empty_mem_output_buffer (Some 2) sink_4096 = Return True c'"
    by (simp add: empty_mem_output_buffer_def malloc_def sink_4096_def Let_def)
  obtain c'' where
    r': "empty_mem_output_buffer (Some 6) (supplied_sink True) = Return True c''"
    by (simp add: empty_mem_output_buffer_def malloc_def supplied_sink_def caller_cinfo_def
          Let_def)
  from empty_mem_output_buffer_frees_newbuffer [OF r sink_4096_dest] r
  have one: "\<exists>c'. empty_mem_output_buffer (Some 2) sink_4096 = Return True c' \<and>
        freed c' = [Ptr 1 0] \<and> heap c' 1 = Some Released \<and>
        map_option newbuffer (dest c') = Some (Ptr 2 0)"
    by (simp add: sink_4096_def)
  from empty_mem_output_buffer_frees_newbuffer [OF r' supplied_sink_dest] r'
  have two: "\<exists>c' cells. empty_mem_output_buffer (Some 6) (supplied_sink True) = Return True c' \<and>
        freed c' = [] \<and> heap c' 5 = Some (Live cells) \<and>
        map_option newbuffer (dest c') = Some (Ptr 6 0)"
    by (auto simp: supplied_sink_def caller_cinfo_def)
  from one two show ?thesis by blast
qed

subsection \<open>The copy into the new buffer\<close>

text \<open>
  Claim C2. Let the buffer \<open>buffer d\<close> lie in the live block \<open>x\<close> at offset
  \<open>off\<close>, and let \<open>malloc\<close> answer with a new block \<open>b\<close>: one that was never
  allocated before, so that \<open>newbuffer\<close> cannot name it. When
  \<open>empty_mem_output_buffer\<close> returns \<open>TRUE\<close>, the new buffer is block \<open>b\<close>, and
  its first \<open>bufsize d\<close> cells are the first \<open>bufsize d\<close> cells of the old buffer: the
  whole former capacity, whatever \<open>next_output_byte\<close> and \<open>free_in_buffer\<close> were.
  By \<open>valid_sink_fresh\<close> the hypotheses on the pointers hold in every well-formed
  sink.
\<close>

theorem empty_mem_output_buffer_preserves:
  assumes "empty_mem_output_buffer (Some b) cinfo = Return True c'"
      and "dest cinfo = Some d"
      and "buffer d = Ptr x off"
      and "heap cinfo x = Some (Live old)"
      and "heap cinfo b = None"
      and "newbuffer d \<noteq> Ptr b 0"
  shows "\<exists>new. map_option buffer (dest c') = Some (Ptr b 0) \<and>
           heap c' b = Some (Live new) \<and>
           off + unat (bufsize d) \<le> length old \<and>
           unat (bufsize d) \<le> length new \<and>
           take (unat (bufsize d)) new = take (unat (bufsize d)) (drop off old)"
proof -
  from empty_mem_output_buffer_Return [OF assms(1,2)]
  obtain b' x' off' src h2 h3 where
    a: "Some b = Some b'" and bd: "buffer d = Ptr x' off'"
    and src: "((heap cinfo)(b' \<mapsto> Live (replicate (unat (bufsize d * 2)) None))) x'
                = Some (Live src)"
    and len: "off' + unat (bufsize d) \<le> length src"
    and h2: "h2 = (heap cinfo)(b' \<mapsto> Live (take (unat (bufsize d)) (drop off' src) @
                         drop (unat (bufsize d)) (replicate (unat (bufsize d * 2)) None)))"
    and h3: "if newbuffer d = NULL then h3 = h2
            else \<exists>y cells. newbuffer d = Ptr y 0 \<and> h2 y = Some (Live cells) \<and>
                   h3 = h2(y \<mapsto> Released)"
    and c': "c' = cinfo\<lparr>heap := h3,
                  freed := freed cinfo @ (if newbuffer d = NULL then [] else [newbuffer d]),
                  dest := Some (d\<lparr>newbuffer := Ptr b' 0,
                    pub := (pub d)\<lparr>next_output_byte := Ptr b' (unat (bufsize d)),
                                  free_in_buffer := bufsize d\<rparr>,
                    buffer := Ptr b' 0,
                    bufsize := bufsize d * 2\<rparr>)\<rparr>"
    by blast
  from a have b': "b' = b" by simp
  from bd assms(3) have xo: "x' = x" "off' = off" by simp_all
  have xb: "x \<noteq> b" using assms(4,5) by auto
  have old: "src = old" using src xb xo b' assms(4) by simp
  define new where "new = take (unat (bufsize d)) (drop off old) @
                         drop (unat (bufsize d)) (replicate (unat (bufsize d * 2)) None)"
  have h2b: "h2 b = Some (Live new)" using h2 b' old xo new_def by simp
  have h3b: "h3 b = h2 b" using h3 assms(6) by (auto split: if_splits)
  have lenold: "off + unat (bufsize d) \<le> length old" using len old xo by simp
  then have lt: "length (take (unat (bufsize d)) (drop off old)) = unat (bufsize d)" by simp
  have "take (unat (bufsize d)) new = take (unat (bufsize d)) (drop off old)"
    unfolding new_def using lt by simp
  moreover have "unat (bufsize d) \<le> length new"
    unfolding new_def using lt by simp
  moreover have "heap c' b = Some (Live new)" using c' h3b h2b by simp
  moreover have "map_option buffer (dest c') = Some (Ptr b 0)" using c' b' by simp
  ultimately show ?thesis using lenold by blast
qed

text \<open>
  Claim C2 at the caller's three bytes: they are the first three cells of block 6.
\<close>

theorem empty_mem_output_buffer_preserves_witness:
  "\<exists>c' new. empty_mem_output_buffer (Some 6) (supplied_sink True) = Return True c' \<and>
      heap c' 6 = Some (Live new) \<and> take 3 new = [Some 1, Some 2, Some 3]"
proof -
  obtain c' where r: "empty_mem_output_buffer (Some 6) (supplied_sink True) = Return True c'"
    by (simp add: empty_mem_output_buffer_def malloc_def supplied_sink_def caller_cinfo_def Let_def)
  have x: "heap (supplied_sink True) 5 = Some (Live [Some 1, Some 2, Some 3])"
    by (simp add: supplied_sink_def caller_cinfo_def)
  have f: "heap (supplied_sink True) 6 = None"
    by (simp add: supplied_sink_def caller_cinfo_def)
  from empty_mem_output_buffer_preserves [OF r supplied_sink_dest _ x f] r
  show ?thesis by auto
qed

subsection \<open>The size reported at the end\<close>

text \<open>
  Claim C3. \<open>term_mem_destination\<close> returns whenever the pointers it dereferences are
  not null, and then the caller's size variable holds \<open>bufsize\<close> minus
  \<open>free_in_buffer\<close>. That value differs from \<open>bufsize\<close> as soon as any room is left,
  and is the difference of the two numbers when \<open>free_in_buffer\<close> does not exceed
  \<open>bufsize\<close>.
\<close>

theorem term_mem_destination_outsize:
  assumes "dest cinfo = Some d"
      and "outsize d = Some os"
      and "alloc d \<longrightarrow> outbuffer d \<noteq> None"
  shows "\<exists>c'. term_mem_destination cinfo = Return () c' \<and>
           size_vars c' os = bufsize d - free_in_buffer (pub d) \<and>
           (free_in_buffer (pub d) \<noteq> 0 \<longrightarrow> size_vars c' os \<noteq> bufsize d) \<and>
           (free_in_buffer (pub d) \<le> bufsize d \<longrightarrow>
              unat (size_vars c' os) = unat (bufsize d) - unat (free_in_buffer (pub d)))"
  using assms
  by (auto simp: term_mem_destination_def unat_sub split: option.splits)

text \<open>
  Claim C3 at a buffer of three bytes with one byte of room left: the size reported
  is 2, not 3.
\<close>

theorem term_mem_destination_outsize_witness:
  "\<exists>c'. term_mem_destination written_sink = Return () c' \<and> size_vars c' 0 = 2 \<and>
        size_vars c' 0 \<noteq> 3"
proof -
  have d: "dest written_sink = Some
        \<lparr>pub = \<lparr>next_output_byte = Ptr 5 2, free_in_buffer = 1,
                init_destination = Init_mem_destination,
                empty_output_buffer = Empty_mem_output_buffer,
                term_destination = Term_mem_destination\<rparr>,
         outbuffer = Some 0, outsize = Some 0, newbuffer = NULL,
         buffer = Ptr 5 0, bufsize = 3, alloc = False\<rparr>"
    by (simp add: written_sink_def)
  from term_mem_destination_outsize [OF d, of 0] show ?thesis by auto
qed

subsection \<open>Doubling\<close>

text \<open>
  Claim C4. After \<open>k\<close> consecutive calls of \<open>empty_mem_output_buffer\<close> that all
  return \<open>TRUE\<close>, \<open>bufsize\<close> is the initial \<open>bufsize\<close> times \<open>2 ^ k\<close>, as natural
  numbers: a doubling that wraps around cannot come out of a returning call, because the
  copy of \<open>bufsize\<close> bytes would not fit the block of the wrapped size.
  By \<open>empty_mem_output_buffer_seq_returns\<close> such runs exist for every \<open>k\<close> whose
  product fits \<open>size_t\<close>.
\<close>

theorem empty_mem_output_buffer_doubling:
  "empty_mem_output_buffer_seq as cinfo = Some c' \<Longrightarrow> dest cinfo = Some d \<Longrightarrow>
   \<exists>d'. dest c' = Some d' \<and> unat (bufsize d') = unat (bufsize d) * 2 ^ length as"
proof (induction as arbitrary: cinfo d)
  case Nil
  then show ?case by simp
next
  case (Cons a as)
  from Cons.prems(1) obtain c1 where
    step: "empty_mem_output_buffer a cinfo = Return True c1"
    and rest: "empty_mem_output_buffer_seq as c1 = Some c'"
    by (auto split: outcome.splits if_splits)
  from growth_bufsize [OF step Cons.prems(2)] obtain d1 where
    d1: "dest c1 = Some d1" and sz: "unat (bufsize d1) = 2 * unat (bufsize d)"
    by blast
  from Cons.IH [OF rest d1] sz show ?case by auto
qed

text \<open>
  Claim C4 at a buffer of three bytes and two calls: 12 bytes.
\<close>

theorem empty_mem_output_buffer_doubling_witness:
  "\<exists>c' d'. empty_mem_output_buffer_seq [Some 6, Some 7] (supplied_sink True) = Some c' \<and>
      dest c' = Some d' \<and> unat (bufsize d') = 12"
proof -
  obtain c' where
    r: "empty_mem_output_buffer_seq [Some 6, Some 7] (supplied_sink True) = Some c'"
    by (simp add: empty_mem_output_buffer_def malloc_def supplied_sink_def caller_cinfo_def Let_def)
  from empty_mem_output_buffer_doubling [OF r supplied_sink_dest] r show ?thesis by auto
qed

subsection \<open>A sink that may not allocate\<close>

text \<open>
  Claim C5. When \<open>alloc\<close> is false, \<open>empty_mem_output_buffer\<close> leaves through
  \<open>ERREXIT(cinfo, JERR_BUFFER_SIZE)\<close> whatever \<open>malloc\<close> would answer and whatever
  the size of the buffer, and the state at the exit is the state on entry.
  By \<open>jpeg_mem_dest_tj_alloc\<close>, every sink installed with \<open>alloc\<close> false is such a
  state.
\<close>

theorem empty_mem_output_buffer_fixed:
  "dest cinfo = Some d \<Longrightarrow> \<not> alloc d \<Longrightarrow>
   empty_mem_output_buffer answer cinfo = Exit (ERREXIT JERR_BUFFER_SIZE) cinfo"
  by (simp add: empty_mem_output_buffer_def)

text \<open>
  Claim C5 at the sink installed on the caller's three bytes without permission to
  allocate.
\<close>

theorem empty_mem_output_buffer_fixed_witness:
  "jpeg_mem_dest_tj pool_garbage None caller_cinfo (Some 0) (Some 0) False =
     Return () (supplied_sink False) \<and>
   empty_mem_output_buffer (Some 6) (supplied_sink False) =
     Exit (ERREXIT JERR_BUFFER_SIZE) (supplied_sink False)"
  using empty_mem_output_buffer_fixed [OF supplied_sink_dest, of False "Some 6"]
    jpeg_mem_dest_tj_caller [of None False]
  by simp

subsection \<open>The window after the buffer has grown\<close>

text \<open>
  Claim C6. After a call of \<open>empty_mem_output_buffer\<close> that returns \<open>TRUE\<close>,
  \<open>next_output_byte\<close> points into the new buffer at the offset of the old
  \<open>bufsize\<close>, \<open>bufsize\<close> is twice the old one, and \<open>free_in_buffer\<close>, which is
  \<open>bufsize\<close> minus that offset, is the old \<open>bufsize\<close>.
\<close>

theorem empty_mem_output_buffer_window:
  assumes "empty_mem_output_buffer answer cinfo = Return True c'"
      and "dest cinfo = Some d"
  shows "\<exists>b d'. answer = Some b \<and> dest c' = Some d' \<and>
           buffer d' = Ptr b 0 \<and>
           next_output_byte (pub d') = Ptr b (unat (bufsize d)) \<and>
           bufsize d' = bufsize d * 2 \<and>
           unat (bufsize d') = 2 * unat (bufsize d) \<and>
           unat (bufsize d') - unat (free_in_buffer (pub d')) = unat (bufsize d) \<and>
           unat (bufsize d) \<le> unat (free_in_buffer (pub d'))"
  using growth_dest [OF assms] growth_no_wrap [OF assms] by auto

text \<open>
  Claim C6 at the sink of 4096 bytes: the window starts at offset 4096 of 8192.
\<close>

theorem empty_mem_output_buffer_window_witness:
  "\<exists>c' d'. empty_mem_output_buffer (Some 2) sink_4096 = Return True c' \<and>
      dest c' = Some d' \<and> buffer d' = Ptr 2 0 \<and> next_output_byte (pub d') = Ptr 2 4096 \<and>
      unat (bufsize d') = 8192 \<and> unat (free_in_buffer (pub d')) = 4096"
proof -
  obtain c' where r: "empty_mem_output_buffer (Some 2) sink_4096 = Return True c'"
    by (simp add: empty_mem_output_buffer_def malloc_def sink_4096_def Let_def)
  from empty_mem_output_buffer_window [OF r sink_4096_dest] r show ?thesis by auto
qed

subsection \<open>Error exits of the installation\<close>

text \<open>
  Claim C7, as stated, fails in its last part: sink state is left behind at the exit
  taken when no buffer is supplied and \<open>alloc\<close> is false. On a compression object
  without a destination, \<open>cinfo->dest\<close> was \<open>NULL\<close> and at the exit points to an
  object whose methods, \<open>outbuffer\<close>, \<open>outsize\<close>, \<open>alloc\<close> and \<open>newbuffer\<close>
  have been assigned. On the sink that owns block 1, the state at the exit is a
  well-formed sink that differs from the one on entry: it writes to the caller's
  variables at address 3 and may no longer allocate.
\<close>

theorem jpeg_mem_dest_tj_partial_state_counterexample:
  "dest fresh_cinfo = None \<and>
   map_option fst (exited (jpeg_mem_dest_tj pool_garbage None fresh_cinfo (Some 0) (Some 0) False))
     = Some (ERREXIT JERR_BUFFER_SIZE) \<and>
   map_option (dest \<circ> snd)
      (exited (jpeg_mem_dest_tj pool_garbage None fresh_cinfo (Some 0) (Some 0) False))
     = Some (Some
        \<lparr>pub = \<lparr>next_output_byte = Ptr 9 3, free_in_buffer = 77,
                init_destination = Init_mem_destination,
                empty_output_buffer = Empty_mem_output_buffer,
                term_destination = Term_mem_destination\<rparr>,
         outbuffer = Some 0, outsize = Some 0, newbuffer = NULL,
         buffer = Ptr 9 1, bufsize = 13, alloc = False\<rparr>) \<and>
   jpeg_mem_dest_tj pool_garbage None sink_4096 (Some 3) (Some 3) False =
     Exit (ERREXIT JERR_BUFFER_SIZE) refused_sink \<and>
   valid_sink refused_sink \<and>
   dest refused_sink \<noteq> dest sink_4096"
  by (simp add: jpeg_mem_dest_tj_def pool_garbage_def fresh_cinfo_def sink_4096_def
        refused_sink_def valid_sink_def exited_def Let_def)

text \<open>
  Claim C7, amended. \<open>jpeg_mem_dest_tj\<close> leaves through
  \<open>ERREXIT(cinfo, JERR_BUFFER_SIZE)\<close> exactly when \<open>outbuffer\<close> or \<open>outsize\<close> is
  null, or no buffer is supplied (\<open>*outbuffer\<close> null or \<open>*outsize\<close> zero) and
  \<open>alloc\<close> is false. In the first case the state at the exit is the state on entry.
  In the second the memory and the caller's variables are untouched, but the destination
  object exists (obtained from \<open>alloc_small\<close> with \<open>newbuffer\<close> cleared, if there was
  none) and its methods, \<open>outbuffer\<close>, \<open>outsize\<close> and \<open>alloc\<close> have been assigned
  from the arguments; its fields \<open>buffer\<close>, \<open>bufsize\<close>, \<open>next_output_byte\<close> and
  \<open>free_in_buffer\<close> have not been assigned and hold what the object held before.
\<close>

theorem jpeg_mem_dest_tj_buffer_size_error:
  "(oba = None \<or> osa = None \<longrightarrow>
      jpeg_mem_dest_tj pool answer cinfo oba osa al = Exit (ERREXIT JERR_BUFFER_SIZE) cinfo) \<and>
   (\<forall>ob os. oba = Some ob \<and> osa = Some os \<longrightarrow>
      ((ptr_vars cinfo ob = NULL \<or> size_vars cinfo os = 0) \<and> \<not> al \<longrightarrow>
         (\<exists>d'. jpeg_mem_dest_tj pool answer cinfo oba osa al =
                 Exit (ERREXIT JERR_BUFFER_SIZE) (cinfo\<lparr>dest := Some d'\<rparr>) \<and>
               d' = (case dest cinfo of None \<Rightarrow> pool\<lparr>newbuffer := NULL\<rparr> | Some d \<Rightarrow> d)
                      \<lparr>pub := installed_methods
                                (pub (case dest cinfo of None \<Rightarrow> pool | Some d \<Rightarrow> d)),
                       outbuffer := Some ob, outsize := Some os, alloc := False\<rparr> \<and>
               buffer d' = buffer (case dest cinfo of None \<Rightarrow> pool | Some d \<Rightarrow> d) \<and>
               bufsize d' = bufsize (case dest cinfo of None \<Rightarrow> pool | Some d \<Rightarrow> d) \<and>
               next_output_byte (pub d') =
                 next_output_byte (pub (case dest cinfo of None \<Rightarrow> pool | Some d \<Rightarrow> d)) \<and>
               free_in_buffer (pub d') =
                 free_in_buffer (pub (case dest cinfo of None \<Rightarrow> pool | Some d \<Rightarrow> d)))) \<and>
      (\<not> ((ptr_vars cinfo ob = NULL \<or> size_vars cinfo os = 0) \<and> \<not> al) \<longrightarrow>
         (\<forall>c'. jpeg_mem_dest_tj pool answer cinfo oba osa al \<noteq>
                 Exit (ERREXIT JERR_BUFFER_SIZE) c')))"
  by (auto simp: jpeg_mem_dest_tj_def malloc_def installed_methods_def Let_def
           split: option.splits)

text \<open>
  Claim C7, amended, at a null \<open>outbuffer\<close>, at a caller without a buffer (the
  buffer fields still hold the leftovers), and at a caller with one.
\<close>

theorem jpeg_mem_dest_tj_buffer_size_error_witness:
  "jpeg_mem_dest_tj pool_garbage None fresh_cinfo None (Some 0) False =
     Exit (ERREXIT JERR_BUFFER_SIZE) fresh_cinfo \<and>
   (\<exists>d'. jpeg_mem_dest_tj pool_garbage None fresh_cinfo (Some 0) (Some 0) False =
            Exit (ERREXIT JERR_BUFFER_SIZE) (fresh_cinfo\<lparr>dest := Some d'\<rparr>) \<and>
          buffer d' = Ptr 9 1 \<and> bufsize d' = 13) \<and>
   jpeg_mem_dest_tj pool_garbage None caller_cinfo (Some 0) (Some 0) False \<noteq>
     Exit (ERREXIT JERR_BUFFER_SIZE) caller_cinfo"
  using jpeg_mem_dest_tj_buffer_size_error [of None "Some 0" pool_garbage None fresh_cinfo False]
    jpeg_mem_dest_tj_buffer_size_error [of "Some 0" "Some 0" pool_garbage None fresh_cinfo False]
    jpeg_mem_dest_tj_buffer_size_error [of "Some 0" "Some 0" pool_garbage None caller_cinfo False]
  by (simp add: fresh_cinfo_def caller_cinfo_def pool_garbage_def)

subsection \<open>The initial buffer\<close>

text \<open>
  Claim C8. Called with no buffer (\<open>*outbuffer\<close> null or \<open>*outsize\<close> zero) and
  with permission to allocate, \<open>jpeg_mem_dest_tj\<close> asks \<open>malloc\<close> for 4096 bytes.
  If \<open>malloc\<close> fails it leaves through \<open>ERREXIT1(cinfo, JERR_OUT_OF_MEMORY, 10)\<close>.
  Otherwise it returns: the new block has 4096 cells, the caller's variables hold its
  address and 4096, \<open>buffer\<close>, \<open>newbuffer\<close> and \<open>next_output_byte\<close> point to its
  start, and \<open>bufsize\<close> and \<open>free_in_buffer\<close> are 4096, so that no byte counts as
  written.
\<close>

theorem jpeg_mem_dest_tj_initial_buffer:
  assumes "ptr_vars cinfo ob = NULL \<or> size_vars cinfo os = 0"
  shows "(\<exists>c'. jpeg_mem_dest_tj pool None cinfo (Some ob) (Some os) True =
                 Exit (ERREXIT1 JERR_OUT_OF_MEMORY 10) c') \<and>
         (\<exists>c' d'. jpeg_mem_dest_tj pool (Some b) cinfo (Some ob) (Some os) True = Return () c' \<and>
            heap c' = (heap cinfo)(b \<mapsto> Live (replicate 4096 None)) \<and>
            ptr_vars c' ob = Ptr b 0 \<and> size_vars c' os = 4096 \<and>
            dest c' = Some d' \<and> buffer d' = Ptr b 0 \<and> newbuffer d' = Ptr b 0 \<and>
            next_output_byte (pub d') = Ptr b 0 \<and>
            bufsize d' = 4096 \<and> free_in_buffer (pub d') = 4096 \<and>
            bufsize d' - free_in_buffer (pub d') = 0 \<and> alloc d')"
  using assms
  by (auto simp: jpeg_mem_dest_tj_def malloc_def OUTPUT_BUF_SIZE_def Let_def
           split: option.splits)

text \<open>
  Claim C8 at the compression object without a destination.
\<close>

theorem jpeg_mem_dest_tj_initial_buffer_witness:
  "jpeg_mem_dest_tj pool_garbage (Some 1) fresh_cinfo (Some 0) (Some 0) True = Return () sink_4096 \<and>
   (\<exists>c'. jpeg_mem_dest_tj pool_garbage None fresh_cinfo (Some 0) (Some 0) True =
                 Exit (ERREXIT1 JERR_OUT_OF_MEMORY 10) c')"
proof -
  have h: "ptr_vars fresh_cinfo 0 = NULL \<or> size_vars fresh_cinfo 0 = 0"
    by (simp add: fresh_cinfo_def)
  from jpeg_mem_dest_tj_initial_buffer [OF h, of pool_garbage 1] jpeg_mem_dest_tj_fresh
  show ?thesis by blast
qed

subsection \<open>Running out of memory when the buffer grows\<close>

text \<open>
  Claim C9. When \<open>malloc\<close> returns \<open>NULL\<close>, \<open>empty_mem_output_buffer\<close> leaves
  through \<open>ERREXIT1(cinfo, JERR_OUT_OF_MEMORY, 10)\<close>, and the state at the exit is the
  state on entry: destination object, memory, released blocks and the caller's
  variables.
\<close>

theorem empty_mem_output_buffer_out_of_memory:
  "dest cinfo = Some d \<Longrightarrow> alloc d \<Longrightarrow>
   empty_mem_output_buffer None cinfo = Exit (ERREXIT1 JERR_OUT_OF_MEMORY 10) cinfo"
  by (simp add: empty_mem_output_buffer_def malloc_def)

text \<open>
  Claim C9 at the sink installed on the caller's three bytes.
\<close>

theorem empty_mem_output_buffer_out_of_memory_witness:
  "empty_mem_output_buffer None (supplied_sink True) =
     Exit (ERREXIT1 JERR_OUT_OF_MEMORY 10) (supplied_sink True)"
  using empty_mem_output_buffer_out_of_memory [OF supplied_sink_dest, of True]
  by simp

subsection \<open>Installing the destination again\<close>

text \<open>
  Claim C10, as stated, fails. The sink that owns block 1 is installed again, this
  time with no buffer supplied (the caller's variables at address 3 hold \<open>NULL\<close> and 0)
  and with permission to allocate: \<open>newbuffer\<close> does not keep block 1, it receives the
  new block 7, and block 7, not block 1, is what the next call of
  \<open>empty_mem_output_buffer\<close> passes to \<open>free\<close>.
\<close>

theorem jpeg_mem_dest_tj_newbuffer_counterexample:
  "map_option newbuffer (dest sink_4096) = Some (Ptr 1 0) \<and>
   jpeg_mem_dest_tj pool_garbage (Some 7) sink_4096 (Some 3) (Some 3) True =
     Return () reinstalled_sink \<and>
   map_option newbuffer (dest reinstalled_sink) = Some (Ptr 7 0) \<and>
   map_option fst (returned (empty_mem_output_buffer (Some 8) reinstalled_sink)) = Some True \<and>
   map_option (freed \<circ> snd) (returned (empty_mem_output_buffer (Some 8) reinstalled_sink))
     = Some [Ptr 7 0]"
  by (simp add: jpeg_mem_dest_tj_def empty_mem_output_buffer_def malloc_def sink_4096_def
        reinstalled_sink_def returned_def OUTPUT_BUF_SIZE_def Let_def)

text \<open>
  Claim C10, amended. When \<open>jpeg_mem_dest_tj\<close> is called on a compression object that
  has its destination object already, and a buffer is supplied, the call returns with
  every field of the object assigned from the arguments, except \<open>newbuffer\<close>, which
  keeps its value; the first call of \<open>empty_mem_output_buffer\<close> that returns
  \<open>TRUE\<close> then passes that value to \<open>free\<close>, if it is not \<open>NULL\<close>. When no buffer
  is supplied and allocation is permitted, \<open>newbuffer\<close> is the newly allocated block
  instead, and that block is what the first such call passes to \<open>free\<close>.
\<close>

theorem jpeg_mem_dest_tj_reuse:
  assumes "dest cinfo = Some d"
  shows "(ptr_vars cinfo ob \<noteq> NULL \<and> size_vars cinfo os \<noteq> 0 \<longrightarrow>
            (\<exists>c1. jpeg_mem_dest_tj pool answer cinfo (Some ob) (Some os) al = Return () c1 \<and>
               c1 = cinfo\<lparr>dest := Some
                      \<lparr>pub = \<lparr>next_output_byte = ptr_vars cinfo ob,
                              free_in_buffer = size_vars cinfo os,
                              init_destination = Init_mem_destination,
                              empty_output_buffer = Empty_mem_output_buffer,
                              term_destination = Term_mem_destination\<rparr>,
                       outbuffer = Some ob, outsize = Some os,
                       newbuffer = newbuffer d,
                       buffer = ptr_vars cinfo ob, bufsize = size_vars cinfo os,
                       alloc = al\<rparr>\<rparr> \<and>
               (\<forall>a c2. empty_mem_output_buffer a c1 = Return True c2 \<longrightarrow>
                  freed c2 = freed cinfo @ (if newbuffer d = NULL then [] else [newbuffer d])))) \<and>
         ((ptr_vars cinfo ob = NULL \<or> size_vars cinfo os = 0) \<longrightarrow>
            (\<forall>b c1. jpeg_mem_dest_tj pool (Some b) cinfo (Some ob) (Some os) True = Return () c1 \<longrightarrow>
               map_option newbuffer (dest c1) = Some (Ptr b 0) \<and>
               (\<forall>a c2. empty_mem_output_buffer a c1 = Return True c2 \<longrightarrow>
                  freed c2 = freed cinfo @ [Ptr b 0])))"
proof (intro conjI impI)
  assume h: "ptr_vars cinfo ob \<noteq> NULL \<and> size_vars cinfo os \<noteq> 0"
  define d1 where "d1 =
     \<lparr>pub = \<lparr>next_output_byte = ptr_vars cinfo ob,
             free_in_buffer = size_vars cinfo os,
             init_destination = Init_mem_destination,
             empty_output_buffer = Empty_mem_output_buffer,
             term_destination = Term_mem_destination\<rparr>,
      outbuffer = Some ob, outsize = Some os,
      newbuffer = newbuffer d,
      buffer = ptr_vars cinfo ob, bufsize = size_vars cinfo os,
      alloc = al\<rparr>"
  have r: "jpeg_mem_dest_tj pool answer cinfo (Some ob) (Some os) al =
             Return () (cinfo\<lparr>dest := Some d1\<rparr>)"
    using assms h by (simp add: jpeg_mem_dest_tj_def Let_def d1_def)
  have g: "freed c2 = freed cinfo @ (if newbuffer d = NULL then [] else [newbuffer d])"
    if "empty_mem_output_buffer a (cinfo\<lparr>dest := Some d1\<rparr>) = Return True c2" for a c2
    using growth_freed [OF that, of d1] by (simp add: d1_def)
  from r g show "\<exists>c1. jpeg_mem_dest_tj pool answer cinfo (Some ob) (Some os) al = Return () c1 \<and>
               c1 = cinfo\<lparr>dest := Some
                      \<lparr>pub = \<lparr>next_output_byte = ptr_vars cinfo ob,
                              free_in_buffer = size_vars cinfo os,
                              init_destination = Init_mem_destination,
                              empty_output_buffer = Empty_mem_output_buffer,
                              term_destination = Term_mem_destination\<rparr>,
                       outbuffer = Some ob, outsize = Some os,
                       newbuffer = newbuffer d,
                       buffer = ptr_vars cinfo ob, bufsize = size_vars cinfo os,
                       alloc = al\<rparr>\<rparr> \<and>
               (\<forall>a c2. empty_mem_output_buffer a c1 = Return True c2 \<longrightarrow>
                  freed c2 = freed cinfo @ (if newbuffer d = NULL then [] else [newbuffer d]))"
    unfolding d1_def by blast
next
  assume h: "ptr_vars cinfo ob = NULL \<or> size_vars cinfo os = 0"
  show "\<forall>b c1. jpeg_mem_dest_tj pool (Some b) cinfo (Some ob) (Some os) True = Return () c1 \<longrightarrow>
               map_option newbuffer (dest c1) = Some (Ptr b 0) \<and>
               (\<forall>a c2. empty_mem_output_buffer a c1 = Return True c2 \<longrightarrow>
                  freed c2 = freed cinfo @ [Ptr b 0])"
  proof (intro allI impI)
    fix b c1
    assume r: "jpeg_mem_dest_tj pool (Some b) cinfo (Some ob) (Some os) True = Return () c1"
    from r h assms obtain d1 where
      d1: "dest c1 = Some d1" and nb: "newbuffer d1 = Ptr b 0" and fr: "freed c1 = freed cinfo"
      by (auto simp: jpeg_mem_dest_tj_def malloc_def Let_def split: if_splits)
    have "freed c2 = freed cinfo @ [Ptr b 0]"
      if "empty_mem_output_buffer a c1 = Return True c2" for a c2
      using growth_freed [OF that d1] nb fr by simp
    with d1 nb show "map_option newbuffer (dest c1) = Some (Ptr b 0) \<and>
               (\<forall>a c2. empty_mem_output_buffer a c1 = Return True c2 \<longrightarrow>
                  freed c2 = freed cinfo @ [Ptr b 0])"
      by simp
  qed
qed

text \<open>
  Claim C10, amended, at the sink that owns block 1, installed again on the same
  buffer: block 1 is released when the buffer grows.
\<close>

theorem jpeg_mem_dest_tj_reuse_witness:
  "\<exists>c1 c2. jpeg_mem_dest_tj pool_garbage None sink_4096 (Some 0) (Some 0) True = Return () c1 \<and>
      map_option newbuffer (dest c1) = Some (Ptr 1 0) \<and>
      map_option buffer (dest c1) = Some (Ptr 1 0) \<and>
      empty_mem_output_buffer (Some 2) c1 = Return True c2 \<and>
      freed c2 = [Ptr 1 0]"
proof -
  have h: "ptr_vars sink_4096 0 \<noteq> NULL \<and> size_vars sink_4096 0 \<noteq> 0"
    by (simp add: sink_4096_def)
  from jpeg_mem_dest_tj_reuse [OF sink_4096_dest, of 0 0 pool_garbage None True] h
  obtain c1 where
    c1: "jpeg_mem_dest_tj pool_garbage None sink_4096 (Some 0) (Some 0) True = Return () c1"
    and c1_def: "c1 = sink_4096\<lparr>dest := Some
                   \<lparr>pub = \<lparr>next_output_byte = ptr_vars sink_4096 0,
                           free_in_buffer = size_vars sink_4096 0,
                           init_destination = Init_mem_destination,
                           empty_output_buffer = Empty_mem_output_buffer,
                           term_destination = Term_mem_destination\<rparr>,
                    outbuffer = Some 0, outsize = Some 0,
                    newbuffer = Ptr 1 0,
                    buffer = ptr_vars sink_4096 0, bufsize = size_vars sink_4096 0,
                    alloc = True\<rparr>\<rparr>"
    and g: "\<And>a c2. empty_mem_output_buffer a c1 = Return True c2 \<Longrightarrow>
               freed c2 = freed sink_4096 @ [Ptr 1 0]"
    by auto
  obtain c2 where c2: "empty_mem_output_buffer (Some 2) c1 = Return True c2"
    by (simp add: c1_def empty_mem_output_buffer_def malloc_def sink_4096_def Let_def)
  from g [OF c2] have "freed c2 = [Ptr 1 0]"
    by (simp add: sink_4096_def)
  with c1 c2 show ?thesis by (auto simp: c1_def sink_4096_def)
qed

end
